theory Spec2Isabelle
  imports Main
begin

section \<open>Values, exceptions and module-level configuration\<close>

text \<open>
  The program is \<^verbatim>\<open>sales_agent_SDR.py\<close>. Its functions are embedded below under their
  own names. Console output (\<^verbatim>\<open>print\<close>) and tracing (\<^verbatim>\<open>with trace(...)\<close>) are not
  modelled: no function of the program reads them back.

  The values of the status dictionaries are strings and integers; a dictionary literal is
  an association list in the order of the literal.
\<close>

datatype pyval = PyStr string | PyInt int

type_synonym status_dict = "(string \<times> pyval) list"

text \<open>
  Exceptions are instances of Python's \<^verbatim>\<open>Exception\<close>: \<open>ValueError m\<close> is the class the
  constructor raises and \<^verbatim>\<open>main\<close> catches by name, \<open>Exception m\<close> is any other subclass;
  \<open>m\<close> is \<^verbatim>\<open>str(e)\<close>. What \<^verbatim>\<open>except Exception\<close> does not catch (\<^verbatim>\<open>KeyboardInterrupt\<close>,
  \<^verbatim>\<open>SystemExit\<close>) is outside the model.
\<close>

datatype exn = ValueError string | Exception string

fun str :: "exn \<Rightarrow> string" where
  "str (ValueError m) = m"
| "str (Exception m) = m"

definition FROM_EMAIL :: string where
  "FROM_EMAIL = ''abdulbasitnedian@outlook.com''"

definition TO_EMAIL :: string where
  "TO_EMAIL = ''abdulbasitnedian@gmail.com''"

text \<open>
  \<^verbatim>\<open>TEST_MODE\<close> is a module-level flag (shipped as \<^verbatim>\<open>False\<close>) that the functions read; it is
  their first argument \<open>test_mode\<close> here, so that both settings can be stated.
\<close>


section \<open>The email provider and the world\<close>

record mail =
  from_email :: string
  to_email :: string
  subject :: string
  content_type :: string
  content :: string

text \<open>
  The SendGrid library is external. Each of its calls either raises or returns:
  \<open>new_client k\<close> is \<^verbatim>\<open>sendgrid.SendGridAPIClient(api_key=k)\<close>,
  \<open>build_mail m\<close> is \<^verbatim>\<open>Email(..)\<close>, \<^verbatim>\<open>To(..)\<close>, \<^verbatim>\<open>Content(..)\<close> and \<^verbatim>\<open>Mail(..).get()\<close>
  (\<open>Some e\<close>: the call raises \<open>e\<close>), and \<open>post k m\<close> is
  \<^verbatim>\<open>sg.client.mail.send.post(request_body=mail)\<close>, which raises or answers with a
  response whose \<^verbatim>\<open>status_code\<close> is the integer.
\<close>

record sendgrid_api =
  new_client :: "string option \<Rightarrow> exn option"
  build_mail :: "mail \<Rightarrow> exn option"
  post :: "string option \<Rightarrow> mail \<Rightarrow> exn + int"

text \<open>
  The world: the process environment, the content of the \<^verbatim>\<open>.env\<close> file, and the outbox,
  the list of every post attempted so far (API key and request body), oldest first.
\<close>

record world =
  environ :: "string \<rightharpoonup> string"
  dotenv_file :: "string \<rightharpoonup> string"
  outbox :: "(string option \<times> mail) list"

type_synonym 'a action = "world \<Rightarrow> (exn + 'a) \<times> world"

definition try_except :: "'a action \<Rightarrow> (exn \<Rightarrow> 'a action) \<Rightarrow> 'a action" where
  "try_except body handler w =
     (case body w of
        (Inl e, w') \<Rightarrow> handler e w'
      | (Inr x, w') \<Rightarrow> (Inr x, w'))"

text \<open>
  The block that \<^verbatim>\<open>send_email\<close> (lines 68 to 73), \<^verbatim>\<open>send_html_email\<close> (113 to 118) and
  \<^verbatim>\<open>send_test_email\<close> (292 to 297) each contain: build the client from the environment's
  key, build the mail from the two module-level addresses, the subject and the content,
  post it. The result is the response's status code, or the exception of the first call
  that raises.
\<close>

definition sendgrid_post :: "sendgrid_api \<Rightarrow> string \<Rightarrow> string \<Rightarrow> string \<Rightarrow> int action" where
  "sendgrid_post sg ctype subj body w =
     (let key = environ w ''SENDGRID_API_KEY'' in
      case new_client sg key of
        Some e \<Rightarrow> (Inl e, w)
      | None \<Rightarrow>
          (let m = \<lparr>from_email = FROM_EMAIL, to_email = TO_EMAIL, subject = subj,
                    content_type = ctype, content = body\<rparr> in
           case build_mail sg m of
             Some e \<Rightarrow> (Inl e, w)
           | None \<Rightarrow> (post sg key m, w\<lparr>outbox := outbox w @ [(key, m)]\<rparr>)))"


section \<open>The send tools\<close>

definition send_email :: "bool \<Rightarrow> sendgrid_api \<Rightarrow> string \<Rightarrow> status_dict action" where
  "send_email test_mode sg body w =
     (if test_mode then (Inr [(''status'', PyStr ''success''), (''status_code'', PyInt 202)], w)
      else
        try_except
          (\<lambda>w. case sendgrid_post sg ''text/plain'' ''Sales Email'' body w of
                  (Inl e, w') \<Rightarrow> (Inl e, w')
                | (Inr status_code, w') \<Rightarrow>
                    if status_code = 202
                    then (Inr [(''status'', PyStr ''success''), (''status_code'', PyInt status_code)], w')
                    else (Inr [(''status'', PyStr ''error''), (''status_code'', PyInt status_code)], w'))
          (\<lambda>e w. (Inr [(''status'', PyStr ''error''), (''message'', PyStr (str e))], w))
          w)"

definition send_html_email :: "bool \<Rightarrow> sendgrid_api \<Rightarrow> string \<Rightarrow> string \<Rightarrow> status_dict action" where
  "send_html_email test_mode sg subj html_body w =
     (if test_mode then (Inr [(''status'', PyStr ''success''), (''status_code'', PyInt 202)], w)
      else
        try_except
          (\<lambda>w. case sendgrid_post sg ''text/html'' subj html_body w of
                  (Inl e, w') \<Rightarrow> (Inl e, w')
                | (Inr status_code, w') \<Rightarrow>
                    if status_code = 202
                    then (Inr [(''status'', PyStr ''success''), (''status_code'', PyInt status_code)], w')
                    else (Inr [(''status'', PyStr ''error''), (''status_code'', PyInt status_code)], w'))
          (\<lambda>e w. (Inr [(''status'', PyStr ''error''), (''message'', PyStr (str e))], w))
          w)"


text \<open>
  \<^verbatim>\<open>send_test_email\<close> (a method; it reads nothing of \<^verbatim>\<open>self\<close>): its whole live branch is
  inside \<^verbatim>\<open>try\<close>, and every exception gives \<^verbatim>\<open>False\<close>.
\<close>

definition send_test_email :: "bool \<Rightarrow> sendgrid_api \<Rightarrow> world \<Rightarrow> bool \<times> world" where
  "send_test_email test_mode sg w =
     (if test_mode then (True, w)
      else
        case sendgrid_post sg ''text/plain'' ''Test Email - AI Sales Agent''
               ''This is a test email from the AI Sales Agent System'' w of
          (Inl e, w') \<Rightarrow> (False, w')
        | (Inr status_code, w') \<Rightarrow> (status_code = 202, w'))"


section \<open>Agents and the system object\<close>

text \<open>
  An agent as \<^verbatim>\<open>Agent(name=, instructions=, model=, tools=, handoffs=)\<close> builds it, and a
  tool as \<^verbatim>\<open>as_tool(tool_name=, tool_description=)\<close> or \<^verbatim>\<open>@function_tool\<close> builds it.
  The instructions are prompt text for the language model; no line of the program reads
  them, and they are left out.
\<close>

datatype agent =
  Agent (agent_name: string) (model: string) (tools: "tool list") (handoffs: "agent list")
and tool =
  Agent_tool (tool_name: string) (tool_description: string) (wrapped: agent)
| Function_tool string

definition as_tool :: "agent \<Rightarrow> string \<Rightarrow> string \<Rightarrow> tool" where
  "as_tool a nm descr = Agent_tool nm descr a"

record sales_agent_system =
  sales_agent1 :: agent
  sales_agent2 :: agent
  sales_agent3 :: agent
  sales_picker :: agent
  subject_writer :: agent
  html_converter :: agent
  tool1 :: tool
  tool2 :: tool
  tool3 :: tool
  subject_tool :: tool
  html_tool :: tool
  emailer_agent :: agent
  sales_manager :: agent

text \<open>\<^verbatim>\<open>_setup_agents\<close> followed by \<^verbatim>\<open>_setup_tools\<close>: the object once both have run.\<close>

definition setup_agents_and_tools :: sales_agent_system where
  "setup_agents_and_tools =
     (let a1 = Agent ''Professional Sales Agent'' ''gpt-4o-mini'' [] [];
          a2 = Agent ''Engaging Sales Agent'' ''gpt-4o-mini'' [] [];
          a3 = Agent ''Concise Sales Agent'' ''gpt-4o-mini'' [] [];
          picker = Agent ''Sales Picker'' ''gpt-4o-mini'' [] [];
          subj = Agent ''Email Subject Writer'' ''gpt-4o-mini'' [] [];
          html = Agent ''HTML Email Body Converter'' ''gpt-4o-mini'' [] [];
          description = ''Write a cold sales email'';
          t1 = as_tool a1 ''sales_agent1'' description;
          t2 = as_tool a2 ''sales_agent2'' description;
          t3 = as_tool a3 ''sales_agent3'' description;
          st = as_tool subj ''subject_writer'' ''Write a subject for a cold sales email'';
          ht = as_tool html ''html_converter'' ''Convert a text email body to an HTML email body'';
          emailer = Agent ''Email Manager'' ''gpt-4o-mini''
                      [st, ht, Function_tool ''send_html_email''] [];
          manager = Agent ''Sales Manager'' ''gpt-4o-mini'' [t1, t2, t3] [emailer]
      in \<lparr>sales_agent1 = a1, sales_agent2 = a2, sales_agent3 = a3, sales_picker = picker,
          subject_writer = subj, html_converter = html,
          tool1 = t1, tool2 = t2, tool3 = t3, subject_tool = st, html_tool = ht,
          emailer_agent = emailer, sales_manager = manager\<rparr>)"

text \<open>
  \<^verbatim>\<open>load_dotenv(override=True)\<close>: every variable of the \<^verbatim>\<open>.env\<close> file is written to the
  environment, over a value already there.
\<close>

definition load_dotenv :: "world \<Rightarrow> world" where
  "load_dotenv w = w\<lparr>environ := environ w ++ dotenv_file w\<rparr>"

text \<open>Python's truth value of \<^verbatim>\<open>os.environ.get(k)\<close>: \<^verbatim>\<open>None\<close> and the empty string are false.\<close>

definition truthy :: "string option \<Rightarrow> bool" where
  "truthy v = (case v of None \<Rightarrow> False | Some s \<Rightarrow> s \<noteq> [])"

definition cross_mark :: string where
  "cross_mark = [CHR 0xE2, CHR 0x9D, CHR 0x8C]"

text \<open>
  The constructor \<^verbatim>\<open>SalesAgentSystem()\<close>, that is \<^verbatim>\<open>__init__\<close>. The messages start with
  the cross mark U+274C, three bytes in UTF-8.
\<close>

definition SalesAgentSystem :: "bool \<Rightarrow> sales_agent_system action" where
  "SalesAgentSystem test_mode w0 =
     (let w = load_dotenv w0 in
      if \<not> truthy (environ w ''OPENAI_API_KEY'')
      then (Inl (ValueError (cross_mark @ '' OPENAI_API_KEY environment variable is required'')), w)
      else if \<not> test_mode \<and> \<not> truthy (environ w ''SENDGRID_API_KEY'')
      then (Inl (ValueError (cross_mark @
              '' SENDGRID_API_KEY environment variable is required for real email sending'')), w)
      else (Inr setup_agents_and_tools, w))"


section \<open>Running agents\<close>

text \<open>
  \<^verbatim>\<open>Runner.run(agent, input)\<close> belongs to the agents framework and calls the language
  model; it is a parameter. Its result object is read only through \<^verbatim>\<open>final_output\<close>.

  The three generator agents and the picker have no tools and no handoffs: a run of one
  of them raises or returns a result, and cannot reach the email provider. That is an
  \<open>llm_run\<close>. The Sales Manager has tools and a handoff to the Email Manager, whose tools
  include \<^verbatim>\<open>send_html_email\<close>: a run of it also acts on the world. That is an \<open>agent_run\<close>.
\<close>

record run_result =
  final_output :: string

type_synonym llm_run = "agent \<Rightarrow> string \<Rightarrow> exn + run_result"

type_synonym agent_run = "agent \<Rightarrow> string \<Rightarrow> run_result action"


section \<open>The parallel fan-out\<close>

text \<open>
  \<^verbatim>\<open>asyncio.gather(*aws)\<close> with the default \<^verbatim>\<open>return_exceptions=False\<close>, as the Python
  library documents it: the results are collected in one slot for each awaitable, in the
  order of the arguments; the first exception raised by an awaitable is propagated at
  once; otherwise \<^verbatim>\<open>gather\<close> returns when every slot is filled.

  \<open>aws ! i\<close> is what awaitable \<open>i\<close> ends with. The order in which the awaitables end is
  decided by the event loop and the network: it is the parameter \<open>sched\<close>, the indices of
  the awaitables that have ended, in the order they ended. The result \<open>None\<close> means that
  \<^verbatim>\<open>gather\<close> has not returned: it is still waiting. An index that names no awaitable is
  skipped.
\<close>

fun gather_from :: "(exn + 'a) list \<Rightarrow> 'a option list \<Rightarrow> nat list \<Rightarrow> (exn + 'a list) option" where
  "gather_from aws slots [] =
     (if None \<in> set slots then None else Some (Inr (map the slots)))"
| "gather_from aws slots (i # rest) =
     (if None \<notin> set slots then Some (Inr (map the slots))
      else if i < length aws then
        (case aws ! i of
           Inl e \<Rightarrow> Some (Inl e)
         | Inr r \<Rightarrow> gather_from aws (slots[i := Some r]) rest)
      else gather_from aws slots rest)"

definition gather :: "(exn + 'a) list \<Rightarrow> nat list \<Rightarrow> (exn + 'a list) option" where
  "gather aws sched = gather_from aws (replicate (length aws) None) sched"

text \<open>
  The invariant of the slots: there is one slot for each awaitable, and a filled slot
  holds the result its awaitable ended with.
\<close>

definition slots_ok :: "(exn + 'a) list \<Rightarrow> 'a option list \<Rightarrow> bool" where
  "slots_ok aws slots \<longleftrightarrow>
     length slots = length aws
     \<and> (\<forall>i<length aws. \<forall>r. slots ! i = Some r \<longrightarrow> aws ! i = Inr r)"

definition generate_parallel_emails ::
    "sales_agent_system \<Rightarrow> llm_run \<Rightarrow> nat list \<Rightarrow> string \<Rightarrow> (exn + string list) option" where
  "generate_parallel_emails self run sched message =
     (case gather [run (sales_agent1 self) message,
                   run (sales_agent2 self) message,
                   run (sales_agent3 self) message] sched of
        None \<Rightarrow> None
      | Some (Inl e) \<Rightarrow> Some (Inl e)
      | Some (Inr results) \<Rightarrow> Some (Inr (map final_output results)))"


section \<open>Selection\<close>

text \<open>Python's \<^verbatim>\<open>sep.join(xs)\<close> on a list of strings.\<close>

fun join :: "string \<Rightarrow> string list \<Rightarrow> string" where
  "join sep [] = []"
| "join sep [x] = x"
| "join sep (x # y # ys) = x @ sep @ join sep (y # ys)"

definition newline :: char where
  "newline = CHR 0x0A"

definition email_options :: "string list \<Rightarrow> string" where
  "email_options emails =
     (''Cold sales emails:'' @ [newline, newline])
       @ join ([newline, newline] @ ''Email:'' @ [newline, newline]) emails"

definition select_best_email :: "sales_agent_system \<Rightarrow> llm_run \<Rightarrow> string list \<Rightarrow> exn + string" where
  "select_best_email self run emails =
     (case run (sales_picker self) (email_options emails) of
        Inl e \<Rightarrow> Inl e
      | Inr best \<Rightarrow> Inr (final_output best))"

definition run_basic_workflow ::
    "sales_agent_system \<Rightarrow> llm_run \<Rightarrow> nat list \<Rightarrow> string \<Rightarrow> (exn + string) option" where
  "run_basic_workflow self run sched message =
     (case generate_parallel_emails self run sched message of
        None \<Rightarrow> None
      | Some (Inl e) \<Rightarrow> Some (Inl e)
      | Some (Inr emails) \<Rightarrow> Some (select_best_email self run emails))"


section \<open>The automated pipeline and the driver\<close>

definition run_automated_sdr :: "sales_agent_system \<Rightarrow> agent_run \<Rightarrow> string \<Rightarrow> run_result action" where
  "run_automated_sdr self runner message w = runner (sales_manager self) message w"

text \<open>
  \<^verbatim>\<open>main\<close> returns nothing; the model returns which of its exits was taken, and the
  world it leaves. \<open>None\<close>: the fan-out of the basic workflow never returned.
\<close>

datatype report =
  Completed
| Email_test_failed
| Configuration_error exn
| Unexpected_error exn

fun except_clauses :: "exn \<Rightarrow> report" where
  "except_clauses (ValueError m) = Configuration_error (ValueError m)"
| "except_clauses (Exception m) = Unexpected_error (Exception m)"

definition main ::
    "bool \<Rightarrow> sendgrid_api \<Rightarrow> llm_run \<Rightarrow> agent_run \<Rightarrow> nat list \<Rightarrow> world \<Rightarrow> (report \<times> world) option" where
  "main test_mode sg run runner sched w =
     (case SalesAgentSystem test_mode w of
        (Inl e, w1) \<Rightarrow> Some (except_clauses e, w1)
      | (Inr sales_system, w1) \<Rightarrow>
          (case (if \<not> test_mode then send_test_email test_mode sg w1 else (True, w1)) of
             (False, w2) \<Rightarrow> Some (Email_test_failed, w2)
           | (True, w2) \<Rightarrow>
               (case run_basic_workflow sales_system run sched
                       ''Write a cold sales email to a tech startup CEO about SOC2 compliance'' of
                  None \<Rightarrow> None
                | Some (Inl e) \<Rightarrow> Some (except_clauses e, w2)
                | Some (Inr best_email) \<Rightarrow>
                    (case run_automated_sdr sales_system runner
                            (''Send out a professional cold sales email addressed to ''
                               @ [CHR 0x27] @ ''Dear Startup Founder'' @ [CHR 0x27]
                               @ '' from Alice at ComplAI'') w2 of
                       (Inl e, w3) \<Rightarrow> Some (except_clauses e, w3)
                     | (Inr result, w3) \<Rightarrow> Some (Completed, w3)))))"



section \<open>Concrete providers, worlds and runs\<close>

text \<open>A provider that accepts every request and answers with the status code \<open>c\<close>.\<close>

definition sg_answering :: "int \<Rightarrow> sendgrid_api" where
  "sg_answering c =
     \<lparr>new_client = (\<lambda>k. None), build_mail = (\<lambda>m. None), post = (\<lambda>k m. Inr c)\<rparr>"

text \<open>A provider whose post raises \<open>e\<close>.\<close>

definition sg_raising :: "exn \<Rightarrow> sendgrid_api" where
  "sg_raising e =
     \<lparr>new_client = (\<lambda>k. None), build_mail = (\<lambda>m. None), post = (\<lambda>k m. Inl e)\<rparr>"

text \<open>A world with both keys in the environment, and one with neither; no \<^verbatim>\<open>.env\<close> file.\<close>

definition live_world :: world where
  "live_world =
     \<lparr>environ = [''OPENAI_API_KEY'' \<mapsto> ''sk-test'', ''SENDGRID_API_KEY'' \<mapsto> ''SG.test''],
      dotenv_file = Map.empty, outbox = []\<rparr>"


text \<open>A language model that answers every prompt with the name of the agent asked.\<close>

definition name_run :: llm_run where
  "name_run a prompt = Inr \<lparr>final_output = agent_name a\<rparr>"

text \<open>
  A run of an agent that holds the send tool in which the language model calls
  \<^verbatim>\<open>send_html_email\<close>, and then calls it once more.
\<close>

definition sending_twice :: "bool \<Rightarrow> sendgrid_api \<Rightarrow> agent_run" where
  "sending_twice test_mode sg a message w =
     (case send_html_email test_mode sg ''Subject'' message w of
        (Inl e, w1) \<Rightarrow> (Inl e, w1)
      | (Inr d1, w1) \<Rightarrow>
          (case send_html_email test_mode sg ''Subject'' message w1 of
             (Inl e, w2) \<Rightarrow> (Inl e, w2)
           | (Inr d2, w2) \<Rightarrow> (Inr \<lparr>final_output = ''Email sent''\<rparr>, w2)))"

text \<open>
  A run of the Email Manager in which the language model calls \<^verbatim>\<open>send_html_email\<close>,
  calls it again when the status it gets back is an error, and ends with the same final
  output either way.
\<close>

definition retrying_on_error :: "bool \<Rightarrow> sendgrid_api \<Rightarrow> agent_run" where
  "retrying_on_error test_mode sg a body w =
     (case send_html_email test_mode sg ''Subject'' body w of
        (Inl e, w1) \<Rightarrow> (Inl e, w1)
      | (Inr d, w1) \<Rightarrow>
          if map_of d ''status'' = Some (PyStr ''error'')
          then (case send_html_email test_mode sg ''Subject'' body w1 of
                  (r, w2) \<Rightarrow> (Inr \<lparr>final_output = ''The email has been sent.''\<rparr>, w2))
          else (Inr \<lparr>final_output = ''The email has been sent.''\<rparr>, w1))"


text \<open>
  A run of an agent that holds the send tool in which the language model calls
  \<^verbatim>\<open>send_html_email\<close> once.
\<close>

definition sending_once :: "bool \<Rightarrow> sendgrid_api \<Rightarrow> agent_run" where
  "sending_once test_mode sg a message w =
     (case send_html_email test_mode sg ''Subject'' message w of
        (Inl e, w1) \<Rightarrow> (Inl e, w1)
      | (Inr d, w1) \<Rightarrow> (Inr \<lparr>final_output = ''Email sent''\<rparr>, w1))"

text \<open>
  A language model that answers the generator agents with their names and fails on the
  picker.
\<close>

definition picker_fails_run :: llm_run where
  "picker_fails_run a prompt =
     (if agent_name a = ''Sales Picker'' then Inl (Exception ''rate limit'')
      else Inr \<lparr>final_output = agent_name a\<rparr>)"


section \<open>Lemmas on the fan-out\<close>

lemma gather_from_Inl:
  "gather_from aws slots sched = Some (Inl e) \<Longrightarrow> \<exists>i\<in>set sched. i < length aws \<and> aws ! i = Inl e"
proof (induction sched arbitrary: slots)
  case Nil
  then show ?case by (simp split: if_splits)
next
  case (Cons i rest)
  then show ?case
    by (auto split: if_splits sum.splits)
qed

lemma slots_ok_update:
  "slots_ok aws slots \<Longrightarrow> i < length aws \<Longrightarrow> aws ! i = Inr r \<Longrightarrow> slots_ok aws (slots[i := Some r])"
  by (auto simp: slots_ok_def nth_list_update)

lemma slots_full:
  assumes "slots_ok aws slots" and "None \<notin> set slots"
  shows "map Inr (map the slots) = aws"
proof (rule nth_equalityI)
  show "length (map Inr (map the slots)) = length aws"
    using assms(1) by (simp add: slots_ok_def)
next
  fix i assume "i < length (map Inr (map the slots))"
  then have i: "i < length slots" by simp
  then have "slots ! i \<in> set slots" by simp
  with assms(2) obtain r where r: "slots ! i = Some r" by (cases "slots ! i") auto
  with assms(1) i have "aws ! i = Inr r" by (simp add: slots_ok_def)
  with i r show "map Inr (map the slots) ! i = aws ! i" by simp
qed

lemma no_None_iff:
  "None \<notin> set slots \<longleftrightarrow> (\<forall>i<length slots. slots ! i \<noteq> None)"
  by (metis in_set_conv_nth)

lemma covered_update:
  assumes "i < length slots"
  shows "(\<forall>j<length slots. slots[i := Some r] ! j \<noteq> None \<or> j \<in> set rest)
     \<longleftrightarrow> (\<forall>j<length slots. slots ! j \<noteq> None \<or> j \<in> set (i # rest))"
proof -
  have "slots[i := Some r] ! j \<noteq> None \<or> j \<in> set rest \<longleftrightarrow> slots ! j \<noteq> None \<or> j \<in> set (i # rest)"
    if "j < length slots" for j
    using that assms by (cases "j = i") auto
  then show ?thesis by blast
qed

lemma gather_from_Inr:
  "slots_ok aws slots \<Longrightarrow> gather_from aws slots sched = Some (Inr rs) \<Longrightarrow>
     map Inr rs = aws \<and> (\<forall>i<length aws. slots ! i \<noteq> None \<or> i \<in> set sched)"
proof (induction sched arbitrary: slots)
  case Nil
  then have full: "None \<notin> set slots" and rs: "rs = map the slots"
    by (auto split: if_splits)
  from full have "\<forall>i<length slots. slots ! i \<noteq> None" by (simp add: no_None_iff)
  with Nil.prems(1) slots_full[OF Nil.prems(1) full] rs show ?case
    by (simp add: slots_ok_def)
next
  case (Cons i rest)
  show ?case
  proof (cases "None \<in> set slots")
    case False
    with Cons.prems have rs: "rs = map the slots" by simp
    from False have "\<forall>i<length slots. slots ! i \<noteq> None" by (simp add: no_None_iff)
    with Cons.prems(1) slots_full[OF Cons.prems(1) False] rs show ?thesis
      by (simp add: slots_ok_def)
  next
    case True
    show ?thesis
    proof (cases "i < length aws")
      case out: False
      with True Cons.prems have "gather_from aws slots rest = Some (Inr rs)" by simp
      from Cons.IH[OF Cons.prems(1) this] show ?thesis by auto
    next
      case inr: True
      with True Cons.prems obtain r where r: "aws ! i = Inr r"
        and g: "gather_from aws (slots[i := Some r]) rest = Some (Inr rs)"
        by (auto split: sum.splits)
      have len: "length slots = length aws" using Cons.prems(1) by (simp add: slots_ok_def)
      from Cons.IH[OF slots_ok_update[OF Cons.prems(1) inr r] g]
      have "map Inr rs = aws"
        and "\<forall>j<length aws. slots[i := Some r] ! j \<noteq> None \<or> j \<in> set rest" by auto
      with covered_update[of i slots r rest] inr len show ?thesis by simp
    qed
  qed
qed

lemma gather_from_returns:
  "length slots = length aws \<Longrightarrow>
   gather_from aws slots sched \<noteq> None \<longleftrightarrow>
     (\<forall>i<length aws. slots ! i \<noteq> None \<or> i \<in> set sched)
     \<or> (\<exists>i\<in>set sched. i < length aws \<and> isl (aws ! i))"
proof (induction sched arbitrary: slots)
  case Nil
  have "None \<in> set slots \<longleftrightarrow> (\<exists>i<length aws. slots ! i = None)"
    using Nil no_None_iff[of slots] by auto
  then show ?case by auto
next
  case (Cons i rest)
  show ?case
  proof (cases "None \<in> set slots")
    case False
    then have "\<forall>i<length aws. slots ! i \<noteq> None"
      using Cons.prems no_None_iff[of slots] by auto
    with False show ?thesis by simp
  next
    case True
    show ?thesis
    proof (cases "i < length aws")
      case out: False
      with True Cons.IH[OF Cons.prems] show ?thesis by auto
    next
      case inr: True
      show ?thesis
      proof (cases "aws ! i")
        case (Inl e)
        with True inr show ?thesis by auto
      next
        case (Inr r)
        have len: "length (slots[i := Some r]) = length aws" using Cons.prems by simp
        have step: "gather_from aws slots (i # rest) = gather_from aws (slots[i := Some r]) rest"
          using True inr Inr by simp
        have cov: "(\<forall>j<length aws. slots[i := Some r] ! j \<noteq> None \<or> j \<in> set rest)
              \<longleftrightarrow> (\<forall>j<length aws. slots ! j \<noteq> None \<or> j \<in> set (i # rest))"
          using covered_update[of i slots r rest] inr Cons.prems by simp
        have fail: "(\<exists>j\<in>set (i # rest). j < length aws \<and> isl (aws ! j))
              \<longleftrightarrow> (\<exists>j\<in>set rest. j < length aws \<and> isl (aws ! j))"
          using Inr by auto
        show ?thesis
          unfolding step fail using Cons.IH[OF len] cov by simp
      qed
    qed
  qed
qed


lemma all_less_3: "(\<forall>i<Suc (Suc (Suc 0)). P i) \<longleftrightarrow> P 0 \<and> P (Suc 0) \<and> P (Suc (Suc 0))"
  by (auto simp: less_Suc_eq)

lemma map_eq_3:
  "map f rs = [a, b, c] \<Longrightarrow> \<exists>r1 r2 r3. rs = [r1, r2, r3] \<and> f r1 = a \<and> f r2 = b \<and> f r3 = c"
  by (auto simp: map_eq_Cons_conv)

lemma slots_ok_init: "slots_ok aws (replicate (length aws) None)"
  by (simp add: slots_ok_def)

lemma gather_Inr:
  assumes "gather aws sched = Some (Inr rs)"
  shows "map Inr rs = aws \<and> (\<forall>i<length aws. i \<in> set sched)"
  using gather_from_Inr[OF slots_ok_init, of aws sched rs] assms
  by (simp add: gather_def)

lemma gather_Inl:
  "gather aws sched = Some (Inl e) \<Longrightarrow> \<exists>i\<in>set sched. i < length aws \<and> aws ! i = Inl e"
  unfolding gather_def by (rule gather_from_Inl)

lemma gather_returns:
  "gather aws sched \<noteq> None \<longleftrightarrow>
     (\<forall>i<length aws. i \<in> set sched) \<or> (\<exists>i\<in>set sched. i < length aws \<and> isl (aws ! i))"
  using gather_from_returns[of "replicate (length aws) None" aws sched]
  by (simp add: gather_def)

lemma gather_all_succeed:
  assumes cover: "\<forall>i<length aws. i \<in> set sched" and ok: "aws = map Inr rs"
  shows "gather aws sched = Some (Inr rs)"
proof -
  from cover have "gather aws sched \<noteq> None" using gather_returns[of aws sched] by blast
  then obtain res where res: "gather aws sched = Some res" by auto
  show ?thesis
  proof (cases res)
    case (Inl e)
    with res gather_Inl[of aws sched e] ok show ?thesis by auto
  next
    case (Inr rs')
    with res gather_Inr[of aws sched rs'] have "map Inr rs' = aws" by simp
    with ok have "map (Inr :: 'a \<Rightarrow> exn + 'a) rs' = map Inr rs" by simp
    then have "rs' = rs" by (simp add: inj_map_eq_map[OF inj_Inr])
    with res Inr show ?thesis by simp
  qed
qed


section \<open>Lemmas on the system object and the provider block\<close>

lemma setup_agents [simp]:
  "sales_agent1 setup_agents_and_tools = Agent ''Professional Sales Agent'' ''gpt-4o-mini'' [] []"
  "sales_agent2 setup_agents_and_tools = Agent ''Engaging Sales Agent'' ''gpt-4o-mini'' [] []"
  "sales_agent3 setup_agents_and_tools = Agent ''Concise Sales Agent'' ''gpt-4o-mini'' [] []"
  "sales_picker setup_agents_and_tools = Agent ''Sales Picker'' ''gpt-4o-mini'' [] []"
  by (simp_all add: setup_agents_and_tools_def Let_def)

lemma sendgrid_post_world:
  "sendgrid_post sg ctype subj body w = (r, w') \<Longrightarrow>
     environ w' = environ w \<and> dotenv_file w' = dotenv_file w
     \<and> (outbox w' = outbox w
          \<or> outbox w' = outbox w @ [(environ w ''SENDGRID_API_KEY'',
                \<lparr>from_email = FROM_EMAIL, to_email = TO_EMAIL, subject = subj,
                 content_type = ctype, content = body\<rparr>)])"
  by (auto simp: sendgrid_post_def Let_def split: option.splits)


section \<open>The fan-out keeps the order of the agents\<close>

text \<open>
  C1. For every prompt and every order \<open>sched\<close> in which the three runs end:
  when all three have ended and succeeded, the fan-out returns exactly the three final
  outputs, the output of generator agent 1 first, of agent 2 second, of agent 3 third;
  whenever it returns a list, all three branches have ended, all three succeeded, and the
  list is these three outputs in that order; whenever it raises, a branch that has ended
  raised that exception; and it returns or raises exactly when all three branches have
  ended or a branch that has ended has failed, so until then it is still waiting.
\<close>

theorem fan_out_in_order:
  fixes self :: sales_agent_system and run :: llm_run
  shows
  "({0, 1, 2} \<subseteq> set sched
      \<and> run (sales_agent1 self) message = Inr r1
      \<and> run (sales_agent2 self) message = Inr r2
      \<and> run (sales_agent3 self) message = Inr r3
    \<longrightarrow> generate_parallel_emails self run sched message
          = Some (Inr [final_output r1, final_output r2, final_output r3]))
   \<and> (generate_parallel_emails self run sched message = Some (Inr outs)
    \<longrightarrow> {0, 1, 2} \<subseteq> set sched
        \<and> (\<exists>r1 r2 r3. run (sales_agent1 self) message = Inr r1
              \<and> run (sales_agent2 self) message = Inr r2
              \<and> run (sales_agent3 self) message = Inr r3
              \<and> outs = [final_output r1, final_output r2, final_output r3]))
   \<and> (generate_parallel_emails self run sched message = Some (Inl e)
    \<longrightarrow> (\<exists>i\<in>set sched. i < 3
           \<and> [run (sales_agent1 self) message, run (sales_agent2 self) message,
               run (sales_agent3 self) message] ! i = Inl e))
   \<and> (generate_parallel_emails self run sched message \<noteq> None
    \<longleftrightarrow> {0, 1, 2} \<subseteq> set sched
        \<or> (\<exists>i\<in>set sched. i < 3
             \<and> isl ([run (sales_agent1 self) message, run (sales_agent2 self) message,
                     run (sales_agent3 self) message] ! i)))"
proof -
  let ?aws = "[run (sales_agent1 self) message, run (sales_agent2 self) message,
               run (sales_agent3 self) message]"
  let ?g = "gather ?aws sched"
  have cover: "(\<forall>i<length ?aws. i \<in> set sched) \<longleftrightarrow> {0, 1, 2} \<subseteq> set sched"
    by (simp add: all_less_3 numeral_2_eq_2)
  have gpe_None: "generate_parallel_emails self run sched message \<noteq> None \<longleftrightarrow> ?g \<noteq> None"
    by (simp add: generate_parallel_emails_def split: option.splits sum.splits)
  have gpe_Inl: "generate_parallel_emails self run sched message = Some (Inl e) \<longleftrightarrow> ?g = Some (Inl e)"
    by (simp add: generate_parallel_emails_def split: option.splits sum.splits)
  have gpe_Inr: "generate_parallel_emails self run sched message = Some (Inr outs)
      \<longleftrightarrow> (\<exists>rs. ?g = Some (Inr rs) \<and> outs = map final_output rs)"
    by (auto simp: generate_parallel_emails_def split: option.splits sum.splits)
  have a: "generate_parallel_emails self run sched message
          = Some (Inr [final_output r1, final_output r2, final_output r3])"
    if "{0, 1, 2} \<subseteq> set sched" and "run (sales_agent1 self) message = Inr r1"
      and "run (sales_agent2 self) message = Inr r2" and "run (sales_agent3 self) message = Inr r3"
  proof -
    have "?g = Some (Inr [r1, r2, r3])"
      by (rule gather_all_succeed) (use that cover in simp_all)
    then show ?thesis by (simp add: generate_parallel_emails_def)
  qed
  have b: "{0, 1, 2} \<subseteq> set sched
        \<and> (\<exists>r1 r2 r3. run (sales_agent1 self) message = Inr r1
              \<and> run (sales_agent2 self) message = Inr r2
              \<and> run (sales_agent3 self) message = Inr r3
              \<and> outs = [final_output r1, final_output r2, final_output r3])"
    if "generate_parallel_emails self run sched message = Some (Inr outs)"
  proof -
    from that gpe_Inr obtain rs where rs: "?g = Some (Inr rs)" and outs: "outs = map final_output rs"
      by blast
    from gather_Inr[OF rs] have m: "map Inr rs = ?aws" and c: "{0, 1, 2} \<subseteq> set sched"
      using cover by auto
    from map_eq_3[OF m] obtain r1 r2 r3 where rs3: "rs = [r1, r2, r3]"
      and "run (sales_agent1 self) message = Inr r1"
      and "run (sales_agent2 self) message = Inr r2"
      and "run (sales_agent3 self) message = Inr r3" by metis
    with outs c show ?thesis by simp
  qed
  have c: "\<exists>i\<in>set sched. i < 3 \<and> ?aws ! i = Inl e"
    if "generate_parallel_emails self run sched message = Some (Inl e)"
    using that gpe_Inl gather_Inl[of ?aws sched e] by (simp add: numeral_3_eq_3)
  have d: "generate_parallel_emails self run sched message \<noteq> None
    \<longleftrightarrow> {0, 1, 2} \<subseteq> set sched \<or> (\<exists>i\<in>set sched. i < 3 \<and> isl (?aws ! i))"
    unfolding gpe_None gather_returns cover by (simp add: numeral_3_eq_3)
  show ?thesis
  proof (intro conjI impI)
    assume "{0, 1, 2} \<subseteq> set sched
      \<and> run (sales_agent1 self) message = Inr r1
      \<and> run (sales_agent2 self) message = Inr r2
      \<and> run (sales_agent3 self) message = Inr r3"
    then show "generate_parallel_emails self run sched message
          = Some (Inr [final_output r1, final_output r2, final_output r3])"
      using a by simp
  next
    assume g: "generate_parallel_emails self run sched message = Some (Inr outs)"
    from b[OF g] show "{0, 1, 2} \<subseteq> set sched" by simp
    from b[OF g] show "\<exists>r1 r2 r3. run (sales_agent1 self) message = Inr r1
              \<and> run (sales_agent2 self) message = Inr r2
              \<and> run (sales_agent3 self) message = Inr r3
              \<and> outs = [final_output r1, final_output r2, final_output r3]" by simp
  next
    assume "generate_parallel_emails self run sched message = Some (Inl e)"
    then show "\<exists>i\<in>set sched. i < 3 \<and> ?aws ! i = Inl e" by (rule c)
  next
    show "generate_parallel_emails self run sched message \<noteq> None
      \<longleftrightarrow> {0, 1, 2} \<subseteq> set sched \<or> (\<exists>i\<in>set sched. i < 3 \<and> isl (?aws ! i))"
      by (rule d)
  qed
qed

text \<open>
  The branches end in the order 3, 1, 2 and the outputs come back in the order 1, 2, 3;
  when only branches 3 and 1 have ended, the fan-out has not returned.
\<close>

theorem fan_out_in_order_witness:
  "generate_parallel_emails setup_agents_and_tools name_run [2, 0, 1] ''Write a cold sales email''
     = Some (Inr [''Professional Sales Agent'', ''Engaging Sales Agent'', ''Concise Sales Agent''])
   \<and> generate_parallel_emails setup_agents_and_tools name_run [2, 0] ''Write a cold sales email''
     = None"
proof -
  let ?msg = "''Write a cold sales email''"
  have cover: "{0, 1, 2} \<subseteq> set [2, 0, Suc 0]" by simp
  have r1: "name_run (sales_agent1 setup_agents_and_tools) ?msg = Inr \<lparr>final_output = ''Professional Sales Agent''\<rparr>"
    and r2: "name_run (sales_agent2 setup_agents_and_tools) ?msg = Inr \<lparr>final_output = ''Engaging Sales Agent''\<rparr>"
    and r3: "name_run (sales_agent3 setup_agents_and_tools) ?msg = Inr \<lparr>final_output = ''Concise Sales Agent''\<rparr>"
    by (simp_all add: name_run_def)
  have a: "generate_parallel_emails setup_agents_and_tools name_run [2, 0, 1] ?msg
     = Some (Inr [''Professional Sales Agent'', ''Engaging Sales Agent'', ''Concise Sales Agent''])"
    using fan_out_in_order[where sched = "[2, 0, 1]" and run = name_run
        and self = setup_agents_and_tools and message = ?msg
        and ?r1.0 = "\<lparr>final_output = ''Professional Sales Agent''\<rparr>"
        and ?r2.0 = "\<lparr>final_output = ''Engaging Sales Agent''\<rparr>"
        and ?r3.0 = "\<lparr>final_output = ''Concise Sales Agent''\<rparr>", THEN conjunct1]
      cover r1 r2 r3
    by simp
  have waiting: "\<not> ({0, 1, 2} \<subseteq> set [2, 0 :: nat]
        \<or> (\<exists>i\<in>set [2, 0]. i < 3
             \<and> isl ([name_run (sales_agent1 setup_agents_and_tools) ?msg,
                     name_run (sales_agent2 setup_agents_and_tools) ?msg,
                     name_run (sales_agent3 setup_agents_and_tools) ?msg] ! i)))"
    by (simp add: name_run_def)
  have b: "generate_parallel_emails setup_agents_and_tools name_run [2, 0] ?msg = None"
    using fan_out_in_order[where sched = "[2, 0]" and run = name_run
        and self = setup_agents_and_tools and message = ?msg,
        THEN conjunct2, THEN conjunct2, THEN conjunct2] waiting
    by simp
  from a b show ?thesis by simp
qed


section \<open>The selector returns what the picker replies\<close>

text \<open>
  C2, as the code has it. For every sequence of candidates, the selector returns the
  final output of the picker's run on the prompt built from the candidates, unchanged,
  and propagates the exception when that run raises. It neither rewrites nor checks the
  reply: the result is one of the candidates exactly when the picker's reply is one of
  them; on a singleton it is the single candidate when the picker replies with it.
\<close>

theorem select_best_email_is_picker_reply:
  "(run (sales_picker self) (email_options emails) = Inr best \<longrightarrow>
      select_best_email self run emails = Inr (final_output best)
      \<and> ((\<exists>c\<in>set emails. select_best_email self run emails = Inr c)
            \<longleftrightarrow> final_output best \<in> set emails)
      \<and> (emails = [c] \<and> final_output best = c \<longrightarrow> select_best_email self run emails = Inr c))
   \<and> (run (sales_picker self) (email_options emails) = Inl e \<longrightarrow>
      select_best_email self run emails = Inl e)"
  by (auto simp: select_best_email_def)

theorem select_best_email_is_picker_reply_witness:
  "select_best_email setup_agents_and_tools (\<lambda>a prompt. Inr \<lparr>final_output = drop 20 prompt\<rparr>) [''Dear CEO'']
     = Inr ''Dear CEO''
   \<and> select_best_email setup_agents_and_tools (\<lambda>a prompt. Inl (Exception ''rate limit'')) [''Dear CEO'']
     = Inl (Exception ''rate limit'')"
proof -
  let ?echo = "(\<lambda>a prompt. Inr \<lparr>final_output = drop 20 prompt\<rparr>) :: llm_run"
  let ?fail = "(\<lambda>a prompt. Inl (Exception ''rate limit'')) :: llm_run"
  have p: "?echo (sales_picker setup_agents_and_tools) (email_options [''Dear CEO''])
      = Inr \<lparr>final_output = ''Dear CEO''\<rparr>"
    by (simp add: email_options_def)
  have q: "?fail (sales_picker setup_agents_and_tools) (email_options [''Dear CEO''])
      = Inl (Exception ''rate limit'')" by simp
  from select_best_email_is_picker_reply[of ?echo setup_agents_and_tools "[''Dear CEO'']"
      "\<lparr>final_output = ''Dear CEO''\<rparr>" "''Dear CEO''"] p
  have a: "select_best_email setup_agents_and_tools ?echo [''Dear CEO''] = Inr ''Dear CEO''"
    by simp
  from select_best_email_is_picker_reply[of ?fail setup_agents_and_tools "[''Dear CEO'']" _ _
      "Exception ''rate limit''"] q
  have b: "select_best_email setup_agents_and_tools ?fail [''Dear CEO''] = Inl (Exception ''rate limit'')"
    by simp
  from a b show ?thesis by simp
qed

text \<open>
  The claim C2 as stated fails: on the single candidate \<^verbatim>\<open>Dear CEO\<close>, with a picker that
  replies with other text, the selector returns that text, which is no candidate.
\<close>

theorem selector_not_among_candidates_counterexample:
  "select_best_email setup_agents_and_tools name_run [''Dear CEO''] = Inr ''Sales Picker''
   \<and> ''Sales Picker'' \<notin> set [''Dear CEO'']"
  by (simp add: select_best_email_def name_run_def)

text \<open>
  C3, as the code has it. On the empty sequence the selector makes no check: the prompt
  is the header alone, the picker is run on it, and the selector returns the picker's
  final output; it fails only when the picker's run raises, with that exception.
\<close>

theorem select_best_email_empty:
  "email_options [] = ''Cold sales emails:'' @ [newline, newline]
   \<and> (\<forall>best. run (sales_picker self) (''Cold sales emails:'' @ [newline, newline]) = Inr best \<longrightarrow>
         select_best_email self run [] = Inr (final_output best))
   \<and> (\<forall>e. run (sales_picker self) (''Cold sales emails:'' @ [newline, newline]) = Inl e \<longrightarrow>
         select_best_email self run [] = Inl e)"
  by (simp add: select_best_email_def email_options_def)

theorem select_best_email_empty_witness:
  "select_best_email setup_agents_and_tools
      (\<lambda>a prompt. Inr \<lparr>final_output = ''I have no emails to choose from.''\<rparr>) []
     = Inr ''I have no emails to choose from.''"
  using select_best_email_empty[of "\<lambda>a prompt. Inr \<lparr>final_output = ''I have no emails to choose from.''\<rparr>"
      setup_agents_and_tools]
  by simp

text \<open>
  The claim C3 as stated fails: on the empty sequence, with a picker that replies, the
  selector returns the reply and raises nothing.
\<close>

theorem selector_empty_counterexample:
  "select_best_email setup_agents_and_tools name_run [] = Inr ''Sales Picker''"
  by (simp add: select_best_email_def name_run_def)


section \<open>The automated pipeline\<close>

text \<open>
  C4, as the code has it. An orchestrator run is one run of the Sales Manager, whose
  result and effects it returns as they are. In \<^verbatim>\<open>main\<close>, once the system is built and
  the test email has passed: when the fan-out or the selection of the basic workflow
  fails, the Sales Manager is never started, whatever its run would do, so the pipeline
  invokes the send tool zero times and the world is the one the test email left; when
  the selection succeeds, the Sales Manager is run exactly once, and \<^verbatim>\<open>main\<close> ends with
  the world that this one run leaves, whether the run returns or raises: nothing is run
  again. The sends of an orchestrator run are therefore those that this single run of the
  manager makes; how many they are is decided by the language model, and the code sets no
  bound.
\<close>

theorem manager_runs_at_most_once:
  "run_automated_sdr self runner message w = runner (sales_manager self) message w
   \<and> (SalesAgentSystem test_mode w = (Inr sys, w1) \<longrightarrow>
      (if \<not> test_mode then send_test_email test_mode sg w1 else (True, w1)) = (True, w2) \<longrightarrow>
        (\<forall>e. generate_parallel_emails sys run sched
                ''Write a cold sales email to a tech startup CEO about SOC2 compliance''
                = Some (Inl e) \<longrightarrow>
              main test_mode sg run runner sched w = Some (except_clauses e, w2))
      \<and> (\<forall>emails. generate_parallel_emails sys run sched
                ''Write a cold sales email to a tech startup CEO about SOC2 compliance''
                = Some (Inr emails) \<longrightarrow>
            (\<forall>e. select_best_email sys run emails = Inl e \<longrightarrow>
                main test_mode sg run runner sched w = Some (except_clauses e, w2))
          \<and> (\<forall>best. select_best_email sys run emails = Inr best \<longrightarrow>
                (\<forall>e w3. runner (sales_manager sys)
                         (''Send out a professional cold sales email addressed to ''
                            @ [CHR 0x27] @ ''Dear Startup Founder'' @ [CHR 0x27]
                            @ '' from Alice at ComplAI'') w2 = (Inl e, w3) \<longrightarrow>
                    main test_mode sg run runner sched w = Some (except_clauses e, w3))
              \<and> (\<forall>r w3. runner (sales_manager sys)
                         (''Send out a professional cold sales email addressed to ''
                            @ [CHR 0x27] @ ''Dear Startup Founder'' @ [CHR 0x27]
                            @ '' from Alice at ComplAI'') w2 = (Inr r, w3) \<longrightarrow>
                    main test_mode sg run runner sched w = Some (Completed, w3)))))"
proof (intro conjI impI allI)
  show "run_automated_sdr self runner message w = runner (sales_manager self) message w"
    by (simp add: run_automated_sdr_def)
next
  fix e
  assume "SalesAgentSystem test_mode w = (Inr sys, w1)"
    and "(if \<not> test_mode then send_test_email test_mode sg w1 else (True, w1)) = (True, w2)"
    and "generate_parallel_emails sys run sched
          ''Write a cold sales email to a tech startup CEO about SOC2 compliance'' = Some (Inl e)"
  then show "main test_mode sg run runner sched w = Some (except_clauses e, w2)"
    by (simp add: main_def run_basic_workflow_def)
next
  fix emails e
  assume "SalesAgentSystem test_mode w = (Inr sys, w1)"
    and "(if \<not> test_mode then send_test_email test_mode sg w1 else (True, w1)) = (True, w2)"
    and "generate_parallel_emails sys run sched
          ''Write a cold sales email to a tech startup CEO about SOC2 compliance'' = Some (Inr emails)"
    and "select_best_email sys run emails = Inl e"
  then show "main test_mode sg run runner sched w = Some (except_clauses e, w2)"
    by (simp add: main_def run_basic_workflow_def)
next
  fix emails best e w3
  assume "SalesAgentSystem test_mode w = (Inr sys, w1)"
    and "(if \<not> test_mode then send_test_email test_mode sg w1 else (True, w1)) = (True, w2)"
    and "generate_parallel_emails sys run sched
          ''Write a cold sales email to a tech startup CEO about SOC2 compliance'' = Some (Inr emails)"
    and "select_best_email sys run emails = Inr best"
    and "runner (sales_manager sys)
           (''Send out a professional cold sales email addressed to ''
              @ [CHR 0x27] @ ''Dear Startup Founder'' @ [CHR 0x27]
              @ '' from Alice at ComplAI'') w2 = (Inl e, w3)"
  then show "main test_mode sg run runner sched w = Some (except_clauses e, w3)"
    by (simp add: main_def run_basic_workflow_def run_automated_sdr_def)
next
  fix emails best r w3
  assume "SalesAgentSystem test_mode w = (Inr sys, w1)"
    and "(if \<not> test_mode then send_test_email test_mode sg w1 else (True, w1)) = (True, w2)"
    and "generate_parallel_emails sys run sched
          ''Write a cold sales email to a tech startup CEO about SOC2 compliance'' = Some (Inr emails)"
    and "select_best_email sys run emails = Inr best"
    and "runner (sales_manager sys)
           (''Send out a professional cold sales email addressed to ''
              @ [CHR 0x27] @ ''Dear Startup Founder'' @ [CHR 0x27]
              @ '' from Alice at ComplAI'') w2 = (Inr r, w3)"
  then show "main test_mode sg run runner sched w = Some (Completed, w3)"
    by (simp add: main_def run_basic_workflow_def run_automated_sdr_def)
qed

text \<open>
  With a picker that fails, the manager is not started although its run would send
  twice: the outbox holds the test email alone. With a picker that replies and a manager
  run that calls the send tool once, the outbox holds the test email and one sales email.
\<close>

theorem manager_runs_at_most_once_witness:
  "main False (sg_answering 202) picker_fails_run (sending_twice False (sg_answering 202))
      [0, 1, 2] live_world
     = Some (Unexpected_error (Exception ''rate limit''),
         live_world\<lparr>outbox := [(Some ''SG.test'',
           \<lparr>from_email = FROM_EMAIL, to_email = TO_EMAIL,
            subject = ''Test Email - AI Sales Agent'', content_type = ''text/plain'',
            content = ''This is a test email from the AI Sales Agent System''\<rparr>)]\<rparr>)
   \<and> main False (sg_answering 202) name_run (sending_once False (sg_answering 202))
      [0, 1, 2] live_world
     = Some (Completed,
         live_world\<lparr>outbox := [(Some ''SG.test'',
           \<lparr>from_email = FROM_EMAIL, to_email = TO_EMAIL,
            subject = ''Test Email - AI Sales Agent'', content_type = ''text/plain'',
            content = ''This is a test email from the AI Sales Agent System''\<rparr>),
          (Some ''SG.test'',
           \<lparr>from_email = FROM_EMAIL, to_email = TO_EMAIL,
            subject = ''Subject'', content_type = ''text/html'',
            content = ''Send out a professional cold sales email addressed to ''
                        @ [CHR 0x27] @ ''Dear Startup Founder'' @ [CHR 0x27]
                        @ '' from Alice at ComplAI''\<rparr>)]\<rparr>)"
proof -
  let ?sg = "sg_answering 202"
  let ?p1 = "''Write a cold sales email to a tech startup CEO about SOC2 compliance''"
  let ?p2 = "''Send out a professional cold sales email addressed to ''
               @ [CHR 0x27] @ ''Dear Startup Founder'' @ [CHR 0x27]
               @ '' from Alice at ComplAI''"
  let ?names = "[''Professional Sales Agent'', ''Engaging Sales Agent'', ''Concise Sales Agent'']"
  let ?w2 = "live_world\<lparr>outbox := [(Some ''SG.test'',
           \<lparr>from_email = FROM_EMAIL, to_email = TO_EMAIL,
            subject = ''Test Email - AI Sales Agent'', content_type = ''text/plain'',
            content = ''This is a test email from the AI Sales Agent System''\<rparr>)]\<rparr>"
  let ?w3 = "live_world\<lparr>outbox := [(Some ''SG.test'',
           \<lparr>from_email = FROM_EMAIL, to_email = TO_EMAIL,
            subject = ''Test Email - AI Sales Agent'', content_type = ''text/plain'',
            content = ''This is a test email from the AI Sales Agent System''\<rparr>),
          (Some ''SG.test'',
           \<lparr>from_email = FROM_EMAIL, to_email = TO_EMAIL,
            subject = ''Subject'', content_type = ''text/html'', content = ?p2\<rparr>)]\<rparr>"
  have built: "SalesAgentSystem False live_world = (Inr setup_agents_and_tools, live_world)"
    by (simp add: SalesAgentSystem_def load_dotenv_def truthy_def live_world_def Let_def)
  have tested: "(if \<not> False then send_test_email False ?sg live_world else (True, live_world))
      = (True, ?w2)"
    by (simp add: send_test_email_def sendgrid_post_def sg_answering_def live_world_def Let_def)
  have gen_a: "generate_parallel_emails setup_agents_and_tools picker_fails_run [0, 1, 2] ?p1
      = Some (Inr ?names)"
    by (simp add: generate_parallel_emails_def gather_def picker_fails_run_def)
  have gen_b: "generate_parallel_emails setup_agents_and_tools name_run [0, 1, 2] ?p1
      = Some (Inr ?names)"
    by (simp add: generate_parallel_emails_def gather_def name_run_def)
  have sel_a: "select_best_email setup_agents_and_tools picker_fails_run ?names
      = Inl (Exception ''rate limit'')"
    by (simp add: select_best_email_def picker_fails_run_def)
  have sel_b: "select_best_email setup_agents_and_tools name_run ?names = Inr ''Sales Picker''"
    by (simp add: select_best_email_def name_run_def)
  have sent: "sending_once False ?sg (sales_manager setup_agents_and_tools) ?p2 ?w2
      = (Inr \<lparr>final_output = ''Email sent''\<rparr>, ?w3)"
    by (simp add: sending_once_def send_html_email_def try_except_def sendgrid_post_def
          sg_answering_def live_world_def Let_def)
  note m = manager_runs_at_most_once[where test_mode = False and sg = ?sg and w = live_world
      and sys = setup_agents_and_tools and ?w1.0 = live_world and ?w2.0 = ?w2
      and sched = "[0, 1, 2]", THEN conjunct2, rule_format, OF built tested]
  from m[where run = picker_fails_run and runner = "sending_twice False ?sg",
      THEN conjunct2, rule_format, OF gen_a, THEN conjunct1, rule_format, OF sel_a]
  have a: "main False ?sg picker_fails_run (sending_twice False ?sg) [0, 1, 2] live_world
      = Some (Unexpected_error (Exception ''rate limit''), ?w2)"
    by simp
  from m[where run = name_run and runner = "sending_once False ?sg",
      THEN conjunct2, rule_format, OF gen_b, THEN conjunct2, rule_format, OF sel_b,
      THEN conjunct2, rule_format, OF sent]
  have b: "main False ?sg name_run (sending_once False ?sg) [0, 1, 2] live_world
      = Some (Completed, ?w3)" .
  from a b show ?thesis by simp
qed

text \<open>
  The claim C4 as stated fails: with a manager run in which the send tool is called
  twice and the provider accepts both requests, the orchestrator run succeeds and two
  sends have been made.
\<close>

theorem send_twice_counterexample:
  "fst (run_automated_sdr setup_agents_and_tools (sending_twice False (sg_answering 202))
          ''Send out a cold sales email'' live_world)
     = Inr \<lparr>final_output = ''Email sent''\<rparr>
   \<and> length (outbox (snd (run_automated_sdr setup_agents_and_tools
          (sending_twice False (sg_answering 202)) ''Send out a cold sales email'' live_world))) = 2"
  by (simp add: run_automated_sdr_def sending_twice_def send_html_email_def try_except_def
        sendgrid_post_def sg_answering_def live_world_def Let_def)


section \<open>The send tools\<close>

text \<open>
  C5, as the code has it. In live mode, when the provider does not answer 202, one call
  of \<^verbatim>\<open>send_html_email\<close> returns a dictionary with status \<^verbatim>\<open>error\<close> that carries the
  provider's status code or the message of the exception; it makes at most one post,
  exactly one when the client and the mail have been built, and never a second; the
  environment is left as it was. Whether the Email Manager calls the tool again, and what
  it reports, is decided by the language model.
\<close>

theorem send_html_email_one_attempt:
  assumes live: "\<not> test_mode"
    and rejected: "fst (sendgrid_post sg ''text/html'' subj html_body w) \<noteq> Inr 202"
  shows "\<exists>d w'. send_html_email test_mode sg subj html_body w = (Inr d, w')
           \<and> map_of d ''status'' = Some (PyStr ''error'')
           \<and> ((\<exists>c. c \<noteq> 202 \<and> fst (sendgrid_post sg ''text/html'' subj html_body w) = Inr c
                     \<and> d = [(''status'', PyStr ''error''), (''status_code'', PyInt c)])
                \<or> (\<exists>e. fst (sendgrid_post sg ''text/html'' subj html_body w) = Inl e
                     \<and> d = [(''status'', PyStr ''error''), (''message'', PyStr (str e))]))
           \<and> environ w' = environ w \<and> dotenv_file w' = dotenv_file w
           \<and> (outbox w' = outbox w
                \<or> outbox w' = outbox w @ [(environ w ''SENDGRID_API_KEY'',
                     \<lparr>from_email = FROM_EMAIL, to_email = TO_EMAIL, subject = subj,
                      content_type = ''text/html'', content = html_body\<rparr>)])
           \<and> (new_client sg (environ w ''SENDGRID_API_KEY'') = None
                \<and> build_mail sg \<lparr>from_email = FROM_EMAIL, to_email = TO_EMAIL, subject = subj,
                      content_type = ''text/html'', content = html_body\<rparr> = None
                \<longrightarrow> length (outbox w') = Suc (length (outbox w)))"
proof (cases "sendgrid_post sg ''text/html'' subj html_body w")
  case (Pair a w1)
  from sendgrid_post_world[OF Pair]
  have env: "environ w1 = environ w" "dotenv_file w1 = dotenv_file w"
    and box: "outbox w1 = outbox w
          \<or> outbox w1 = outbox w @ [(environ w ''SENDGRID_API_KEY'',
                \<lparr>from_email = FROM_EMAIL, to_email = TO_EMAIL, subject = subj,
                 content_type = ''text/html'', content = html_body\<rparr>)]"
    by simp_all
  have posted: "length (outbox w1) = Suc (length (outbox w))"
    if "new_client sg (environ w ''SENDGRID_API_KEY'') = None"
      and "build_mail sg \<lparr>from_email = FROM_EMAIL, to_email = TO_EMAIL, subject = subj,
                      content_type = ''text/html'', content = html_body\<rparr> = None"
    using that Pair by (auto simp: sendgrid_post_def Let_def)
  show ?thesis
  proof (cases a)
    case (Inl e)
    with Pair live have "send_html_email test_mode sg subj html_body w
        = (Inr [(''status'', PyStr ''error''), (''message'', PyStr (str e))], w1)"
      by (simp add: send_html_email_def try_except_def)
    with Pair Inl env box posted show ?thesis by simp
  next
    case (Inr c)
    with Pair rejected have c: "c \<noteq> 202" by simp
    with Pair Inr live have "send_html_email test_mode sg subj html_body w
        = (Inr [(''status'', PyStr ''error''), (''status_code'', PyInt c)], w1)"
      by (simp add: send_html_email_def try_except_def)
    with Pair Inr c env box posted show ?thesis by simp
  qed
qed

theorem send_html_email_one_attempt_witness:
  "send_html_email False (sg_answering 500) ''Subject'' ''<p>Hello</p>'' live_world
     = (Inr [(''status'', PyStr ''error''), (''status_code'', PyInt 500)],
        live_world\<lparr>outbox := [(Some ''SG.test'',
           \<lparr>from_email = FROM_EMAIL, to_email = TO_EMAIL, subject = ''Subject'',
            content_type = ''text/html'', content = ''<p>Hello</p>''\<rparr>)]\<rparr>)"
proof -
  have live: "\<not> False" by simp
  have rejected: "fst (sendgrid_post (sg_answering 500) ''text/html'' ''Subject'' ''<p>Hello</p>'' live_world) \<noteq> Inr 202"
    by (simp add: sendgrid_post_def sg_answering_def Let_def)
  from send_html_email_one_attempt[OF live rejected]
  obtain d w' where "send_html_email False (sg_answering 500) ''Subject'' ''<p>Hello</p>'' live_world = (Inr d, w')"
    by blast
  then show ?thesis
    by (simp add: send_html_email_def try_except_def sendgrid_post_def sg_answering_def
          live_world_def Let_def)
qed

text \<open>
  The claim C5 as stated fails: the provider answers 500, the send tool returns the
  error status, and a run of the Email Manager that calls the tool again has made two
  send attempts and ends with a final output that does not show the error.
\<close>

theorem chain_retry_counterexample:
  "fst (send_html_email False (sg_answering 500) ''Subject'' ''Hello'' live_world)
     = Inr [(''status'', PyStr ''error''), (''status_code'', PyInt 500)]
   \<and> length (outbox (snd (retrying_on_error False (sg_answering 500)
        (emailer_agent setup_agents_and_tools) ''Hello'' live_world))) = 2
   \<and> fst (retrying_on_error False (sg_answering 500)
        (emailer_agent setup_agents_and_tools) ''Hello'' live_world)
     = Inr \<lparr>final_output = ''The email has been sent.''\<rparr>"
  by (simp add: retrying_on_error_def send_html_email_def try_except_def sendgrid_post_def
        sg_answering_def live_world_def Let_def)

text \<open>
  C6, as the code has it. Every call of a send tool returns a dictionary whose status is
  \<^verbatim>\<open>success\<close> or \<^verbatim>\<open>error\<close> and which carries a status code or a message. In test mode
  it is \<^verbatim>\<open>success\<close> with the status code 202, and the world, outbox included, is left as
  it was: the provider is not asked. In live mode the status is \<^verbatim>\<open>success\<close> exactly when
  the provider answers with the status code 202, and the dictionary then carries that
  code; any other status code gives \<^verbatim>\<open>error\<close> with that code, and an exception gives
  \<^verbatim>\<open>error\<close> with the exception's message.
\<close>

theorem send_result_by_mode:
  "(test_mode \<longrightarrow>
      send_html_email test_mode sg subj html_body w
        = (Inr [(''status'', PyStr ''success''), (''status_code'', PyInt 202)], w)
      \<and> send_email test_mode sg body w
        = (Inr [(''status'', PyStr ''success''), (''status_code'', PyInt 202)], w))
   \<and> (\<not> test_mode \<longrightarrow>
      (\<exists>d. fst (send_html_email test_mode sg subj html_body w) = Inr d
        \<and> (map_of d ''status'' = Some (PyStr ''success'')
             \<or> map_of d ''status'' = Some (PyStr ''error''))
        \<and> ((\<exists>c. map_of d ''status_code'' = Some (PyInt c))
             \<or> (\<exists>m. map_of d ''message'' = Some (PyStr m)))
        \<and> (map_of d ''status'' = Some (PyStr ''success'')
             \<longleftrightarrow> fst (sendgrid_post sg ''text/html'' subj html_body w) = Inr 202)
        \<and> (fst (sendgrid_post sg ''text/html'' subj html_body w) = Inr 202 \<longrightarrow>
               d = [(''status'', PyStr ''success''), (''status_code'', PyInt 202)])
        \<and> (\<forall>c. fst (sendgrid_post sg ''text/html'' subj html_body w) = Inr c \<longrightarrow>
               c \<noteq> 202 \<longrightarrow> d = [(''status'', PyStr ''error''), (''status_code'', PyInt c)])
        \<and> (\<forall>e. fst (sendgrid_post sg ''text/html'' subj html_body w) = Inl e \<longrightarrow>
               d = [(''status'', PyStr ''error''), (''message'', PyStr (str e))]))
      \<and> (\<exists>d. fst (send_email test_mode sg body w) = Inr d
        \<and> (map_of d ''status'' = Some (PyStr ''success'')
             \<or> map_of d ''status'' = Some (PyStr ''error''))
        \<and> ((\<exists>c. map_of d ''status_code'' = Some (PyInt c))
             \<or> (\<exists>m. map_of d ''message'' = Some (PyStr m)))
        \<and> (map_of d ''status'' = Some (PyStr ''success'')
             \<longleftrightarrow> fst (sendgrid_post sg ''text/plain'' ''Sales Email'' body w) = Inr 202)
        \<and> (fst (sendgrid_post sg ''text/plain'' ''Sales Email'' body w) = Inr 202 \<longrightarrow>
               d = [(''status'', PyStr ''success''), (''status_code'', PyInt 202)])
        \<and> (\<forall>c. fst (sendgrid_post sg ''text/plain'' ''Sales Email'' body w) = Inr c \<longrightarrow>
               c \<noteq> 202 \<longrightarrow> d = [(''status'', PyStr ''error''), (''status_code'', PyInt c)])
        \<and> (\<forall>e. fst (sendgrid_post sg ''text/plain'' ''Sales Email'' body w) = Inl e \<longrightarrow>
               d = [(''status'', PyStr ''error''), (''message'', PyStr (str e))])))"
proof (cases test_mode)
  case True
  then show ?thesis by (simp add: send_email_def send_html_email_def)
next
  case False
  have html: "\<exists>d. fst (send_html_email test_mode sg subj html_body w) = Inr d
        \<and> (map_of d ''status'' = Some (PyStr ''success'')
             \<or> map_of d ''status'' = Some (PyStr ''error''))
        \<and> ((\<exists>c. map_of d ''status_code'' = Some (PyInt c))
             \<or> (\<exists>m. map_of d ''message'' = Some (PyStr m)))
        \<and> (map_of d ''status'' = Some (PyStr ''success'')
             \<longleftrightarrow> fst (sendgrid_post sg ''text/html'' subj html_body w) = Inr 202)
        \<and> (fst (sendgrid_post sg ''text/html'' subj html_body w) = Inr 202 \<longrightarrow>
               d = [(''status'', PyStr ''success''), (''status_code'', PyInt 202)])
        \<and> (\<forall>c. fst (sendgrid_post sg ''text/html'' subj html_body w) = Inr c \<longrightarrow>
               c \<noteq> 202 \<longrightarrow> d = [(''status'', PyStr ''error''), (''status_code'', PyInt c)])
        \<and> (\<forall>e. fst (sendgrid_post sg ''text/html'' subj html_body w) = Inl e \<longrightarrow>
               d = [(''status'', PyStr ''error''), (''message'', PyStr (str e))])"
  proof (cases "sendgrid_post sg ''text/html'' subj html_body w")
    case (Pair a w')
    with False show ?thesis
      by (cases a) (simp_all add: send_html_email_def try_except_def)
  qed
  have plain: "\<exists>d. fst (send_email test_mode sg body w) = Inr d
        \<and> (map_of d ''status'' = Some (PyStr ''success'')
             \<or> map_of d ''status'' = Some (PyStr ''error''))
        \<and> ((\<exists>c. map_of d ''status_code'' = Some (PyInt c))
             \<or> (\<exists>m. map_of d ''message'' = Some (PyStr m)))
        \<and> (map_of d ''status'' = Some (PyStr ''success'')
             \<longleftrightarrow> fst (sendgrid_post sg ''text/plain'' ''Sales Email'' body w) = Inr 202)
        \<and> (fst (sendgrid_post sg ''text/plain'' ''Sales Email'' body w) = Inr 202 \<longrightarrow>
               d = [(''status'', PyStr ''success''), (''status_code'', PyInt 202)])
        \<and> (\<forall>c. fst (sendgrid_post sg ''text/plain'' ''Sales Email'' body w) = Inr c \<longrightarrow>
               c \<noteq> 202 \<longrightarrow> d = [(''status'', PyStr ''error''), (''status_code'', PyInt c)])
        \<and> (\<forall>e. fst (sendgrid_post sg ''text/plain'' ''Sales Email'' body w) = Inl e \<longrightarrow>
               d = [(''status'', PyStr ''error''), (''message'', PyStr (str e))])"
  proof (cases "sendgrid_post sg ''text/plain'' ''Sales Email'' body w")
    case (Pair a w')
    with False show ?thesis
      by (cases a) (simp_all add: send_email_def try_except_def)
  qed
  from False html plain show ?thesis by blast
qed

theorem send_result_by_mode_witness:
  "fst (send_html_email False (sg_answering 202) ''Subject'' ''<p>Hello</p>'' live_world)
     = Inr [(''status'', PyStr ''success''), (''status_code'', PyInt 202)]
   \<and> fst (send_email False (sg_answering 500) ''Hello'' live_world)
     = Inr [(''status'', PyStr ''error''), (''status_code'', PyInt 500)]
   \<and> fst (send_email False (sg_raising (Exception ''HTTP Error 403: Forbidden'')) ''Hello'' live_world)
     = Inr [(''status'', PyStr ''error''), (''message'', PyStr ''HTTP Error 403: Forbidden'')]
   \<and> send_html_email True (sg_answering 500) ''Subject'' ''<p>Hello</p>'' live_world
     = (Inr [(''status'', PyStr ''success''), (''status_code'', PyInt 202)], live_world)"
proof -
  let ?e = "Exception ''HTTP Error 403: Forbidden''"
  have live: "\<not> False" and test: "True" by simp_all
  have a1: "fst (sendgrid_post (sg_answering 202) ''text/html'' ''Subject'' ''<p>Hello</p>'' live_world) = Inr 202"
    and a2: "fst (sendgrid_post (sg_answering 500) ''text/plain'' ''Sales Email'' ''Hello'' live_world) = Inr 500"
    and a3: "fst (sendgrid_post (sg_raising ?e) ''text/plain'' ''Sales Email'' ''Hello'' live_world) = Inl ?e"
    by (simp_all add: sendgrid_post_def sg_answering_def sg_raising_def Let_def)
  note r = send_result_by_mode[where subj = "''Subject''" and html_body = "''<p>Hello</p>''"
      and body = "''Hello''" and w = live_world]
  from r[where test_mode = False and sg = "sg_answering 202", THEN conjunct2, rule_format,
      OF live, THEN conjunct1] a1
  have h: "fst (send_html_email False (sg_answering 202) ''Subject'' ''<p>Hello</p>'' live_world)
     = Inr [(''status'', PyStr ''success''), (''status_code'', PyInt 202)]"
    by auto
  from r[where test_mode = False and sg = "sg_answering 500", THEN conjunct2, rule_format,
      OF live, THEN conjunct2] a2
  have p: "fst (send_email False (sg_answering 500) ''Hello'' live_world)
     = Inr [(''status'', PyStr ''error''), (''status_code'', PyInt 500)]"
    by auto
  from r[where test_mode = False and sg = "sg_raising ?e", THEN conjunct2, rule_format,
      OF live, THEN conjunct2] a3
  have x: "fst (send_email False (sg_raising ?e) ''Hello'' live_world)
     = Inr [(''status'', PyStr ''error''), (''message'', PyStr ''HTTP Error 403: Forbidden'')]"
    by auto
  from r[where test_mode = True and sg = "sg_answering 500", THEN conjunct1, rule_format,
      OF test, THEN conjunct1]
  have t: "send_html_email True (sg_answering 500) ''Subject'' ''<p>Hello</p>'' live_world
     = (Inr [(''status'', PyStr ''success''), (''status_code'', PyInt 202)], live_world)" .
  from h p x t show ?thesis by simp
qed

text \<open>
  The claim C6 as stated fails in test mode: the status is \<^verbatim>\<open>success\<close> although the
  provider, which would answer this request with 500, is never asked and nothing is added
  to the outbox.
\<close>

theorem send_status_counterexample:
  "fst (send_html_email True (sg_answering 500) ''Subject'' ''<p>Hello</p>'' live_world)
     = Inr [(''status'', PyStr ''success''), (''status_code'', PyInt 202)]
   \<and> fst (sendgrid_post (sg_answering 500) ''text/html'' ''Subject'' ''<p>Hello</p>'' live_world)
     = Inr 500
   \<and> outbox (snd (send_html_email True (sg_answering 500) ''Subject'' ''<p>Hello</p>'' live_world)) = []"
  by (simp add: send_html_email_def sendgrid_post_def sg_answering_def live_world_def Let_def)

text \<open>
  C9. For every input, in both modes, \<^verbatim>\<open>send_email\<close> and \<^verbatim>\<open>send_html_email\<close> return a
  status dictionary, with status \<^verbatim>\<open>success\<close> or \<^verbatim>\<open>error\<close>, and raise nothing; in live mode
  every exception raised by the provider's calls is caught and gives the dictionary with
  status \<^verbatim>\<open>error\<close> and the exception's message.
\<close>

theorem send_tools_total:
  "(\<exists>d. fst (send_email test_mode sg body w) = Inr d
        \<and> (map_of d ''status'' = Some (PyStr ''success'')
             \<or> map_of d ''status'' = Some (PyStr ''error'')))
   \<and> (\<exists>d. fst (send_html_email test_mode sg subj html_body w) = Inr d
        \<and> (map_of d ''status'' = Some (PyStr ''success'')
             \<or> map_of d ''status'' = Some (PyStr ''error'')))
   \<and> (\<not> test_mode \<longrightarrow> fst (sendgrid_post sg ''text/plain'' ''Sales Email'' body w) = Inl e \<longrightarrow>
        fst (send_email test_mode sg body w)
          = Inr [(''status'', PyStr ''error''), (''message'', PyStr (str e))])
   \<and> (\<not> test_mode \<longrightarrow> fst (sendgrid_post sg ''text/html'' subj html_body w) = Inl e \<longrightarrow>
        fst (send_html_email test_mode sg subj html_body w)
          = Inr [(''status'', PyStr ''error''), (''message'', PyStr (str e))])"
proof -
  obtain a w1 where plain: "sendgrid_post sg ''text/plain'' ''Sales Email'' body w = (a, w1)"
    by (cases "sendgrid_post sg ''text/plain'' ''Sales Email'' body w")
  obtain b w2 where html: "sendgrid_post sg ''text/html'' subj html_body w = (b, w2)"
    by (cases "sendgrid_post sg ''text/html'' subj html_body w")
  have 1: "\<exists>d. fst (send_email test_mode sg body w) = Inr d
        \<and> (map_of d ''status'' = Some (PyStr ''success'')
             \<or> map_of d ''status'' = Some (PyStr ''error''))"
    using plain by (cases a) (simp_all add: send_email_def try_except_def)
  have 2: "\<exists>d. fst (send_html_email test_mode sg subj html_body w) = Inr d
        \<and> (map_of d ''status'' = Some (PyStr ''success'')
             \<or> map_of d ''status'' = Some (PyStr ''error''))"
    using html by (cases b) (simp_all add: send_html_email_def try_except_def)
  have 3: "\<not> test_mode \<longrightarrow> fst (sendgrid_post sg ''text/plain'' ''Sales Email'' body w) = Inl e \<longrightarrow>
        fst (send_email test_mode sg body w)
          = Inr [(''status'', PyStr ''error''), (''message'', PyStr (str e))]"
    using plain by (simp add: send_email_def try_except_def)
  have 4: "\<not> test_mode \<longrightarrow> fst (sendgrid_post sg ''text/html'' subj html_body w) = Inl e \<longrightarrow>
        fst (send_html_email test_mode sg subj html_body w)
          = Inr [(''status'', PyStr ''error''), (''message'', PyStr (str e))]"
    using html by (simp add: send_html_email_def try_except_def)
  from 1 2 3 4 show ?thesis by (intro conjI)
qed

theorem send_tools_total_witness:
  "fst (send_email False (sg_raising (Exception ''HTTP Error 401: Unauthorized'')) ''Hello'' live_world)
     = Inr [(''status'', PyStr ''error''), (''message'', PyStr ''HTTP Error 401: Unauthorized'')]
   \<and> fst (send_html_email False (sg_raising (Exception ''HTTP Error 401: Unauthorized''))
            ''Subject'' ''<p>Hello</p>'' live_world)
     = Inr [(''status'', PyStr ''error''), (''message'', PyStr ''HTTP Error 401: Unauthorized'')]"
proof -
  let ?e = "Exception ''HTTP Error 401: Unauthorized''"
  have live: "\<not> False" by simp
  have p1: "fst (sendgrid_post (sg_raising ?e) ''text/plain'' ''Sales Email'' ''Hello'' live_world) = Inl ?e"
    by (simp add: sendgrid_post_def sg_raising_def Let_def)
  have p2: "fst (sendgrid_post (sg_raising ?e) ''text/html'' ''Subject'' ''<p>Hello</p>'' live_world) = Inl ?e"
    by (simp add: sendgrid_post_def sg_raising_def Let_def)
  from send_tools_total[of False "sg_raising ?e" "''Hello''" live_world "''Subject''" "''<p>Hello</p>''" ?e]
    live p1 p2
  show ?thesis by simp
qed

text \<open>
  C10. When \<^verbatim>\<open>TEST_MODE\<close> is true, \<^verbatim>\<open>send_email\<close> and \<^verbatim>\<open>send_html_email\<close> return the
  dictionary with status \<^verbatim>\<open>success\<close> and status code 202 for every input and every
  provider, and leave the world, outbox included, as it was: no call of the provider is
  made.
\<close>

theorem test_mode_simulates_send:
  "test_mode \<Longrightarrow>
     send_email test_mode sg body w
       = (Inr [(''status'', PyStr ''success''), (''status_code'', PyInt 202)], w)
     \<and> send_html_email test_mode sg subj html_body w
       = (Inr [(''status'', PyStr ''success''), (''status_code'', PyInt 202)], w)"
  by (simp add: send_email_def send_html_email_def)

theorem test_mode_simulates_send_witness:
  "send_email True (sg_raising (Exception ''unreachable'')) ''Hello'' live_world
       = (Inr [(''status'', PyStr ''success''), (''status_code'', PyInt 202)], live_world)
     \<and> send_html_email True (sg_raising (Exception ''unreachable'')) ''Subject'' ''<p>Hello</p>'' live_world
       = (Inr [(''status'', PyStr ''success''), (''status_code'', PyInt 202)], live_world)"
proof -
  have t: "True" by simp
  show ?thesis by (rule test_mode_simulates_send[OF t])
qed


section \<open>Construction checks the credentials\<close>



end
